theory Spec2Isabelle
  imports Main
begin

section \<open>Python strings and paths\<close>

text \<open>
  Strings are \<open>char list\<close>. The operations below are the \<open>str\<close> methods that
  \<^verbatim>\<open>yd4.py\<close> and \<^verbatim>\<open>Yd.py\<close> call, and the \<open>os.path\<close> functions of \<^verbatim>\<open>posixpath\<close>.
\<close>

text \<open>\<^verbatim>\<open>str.isspace\<close> on the ASCII range: tab, newline, vertical tab, form feed,
  carriage return, the separators 0x1c..0x1f and the blank.\<close>

definition py_isspace :: "char \<Rightarrow> bool" where
  "py_isspace c = (of_char c \<in> {9, 10, 11, 12, 13, 28, 29, 30, 31, 32 :: nat})"

text \<open>\<^verbatim>\<open>s.strip()\<close>\<close>

definition strip :: "string \<Rightarrow> string" where
  "strip s = rev (dropWhile py_isspace (rev (dropWhile py_isspace s)))"

text \<open>\<^verbatim>\<open>s.startswith(p)\<close> and \<^verbatim>\<open>s.endswith(p)\<close>\<close>

definition startswith :: "string \<Rightarrow> string \<Rightarrow> bool" where
  "startswith s p = (take (length p) s = p)"

definition endswith :: "string \<Rightarrow> string \<Rightarrow> bool" where
  "endswith s p = startswith (rev s) (rev p)"

text \<open>\<^verbatim>\<open>a in b\<close> for two strings: \<open>a\<close> occurs in \<open>b\<close> as a contiguous run.\<close>

fun str_in :: "string \<Rightarrow> string \<Rightarrow> bool" where
  "str_in a [] = (a = [])"
| "str_in a (c # cs) = (startswith (c # cs) a \<or> str_in a cs)"

text \<open>\<^verbatim>\<open>s.replace('%', '')\<close>\<close>

definition replace_percent :: "string \<Rightarrow> string" where
  "replace_percent s = filter (\<lambda>c. c \<noteq> CHR ''%'') s"

text \<open>\<^verbatim>\<open>s.rfind(c)\<close> for a one-character \<open>c\<close>: the last index of \<open>c\<close>, or \<open>-1\<close>.\<close>

primrec rfind_aux :: "char \<Rightarrow> string \<Rightarrow> int \<Rightarrow> int \<Rightarrow> int" where
  "rfind_aux c [] i found = found"
| "rfind_aux c (x # xs) i found = rfind_aux c xs (i + 1) (if x = c then i else found)"

definition rfind :: "string \<Rightarrow> char \<Rightarrow> int" where
  "rfind s c = rfind_aux c s 0 (- 1)"

text \<open>
  \<^verbatim>\<open>os.path.splitext(p)\<close> (posixpath, through \<^verbatim>\<open>genericpath._splitext\<close>): the split is
  at the last dot after the last slash, unless only dots stand between them.
\<close>

definition splitext :: "string \<Rightarrow> string \<times> string" where
  "splitext p =
     (let sepIndex = rfind p CHR ''/'';
          dotIndex = rfind p CHR ''.''
      in if dotIndex > sepIndex
            \<and> list_ex (\<lambda>c. c \<noteq> CHR ''.'')
                 (take (nat (dotIndex - (sepIndex + 1))) (drop (nat (sepIndex + 1)) p))
         then (take (nat dotIndex) p, drop (nat dotIndex) p)
         else (p, []))"

text \<open>\<^verbatim>\<open>os.path.join(a, b)\<close> (posixpath, two arguments).\<close>

definition os_path_join :: "string \<Rightarrow> string \<Rightarrow> string" where
  "os_path_join a b =
     (if startswith b ''/'' then b
      else if a = [] \<or> endswith a ''/'' then a @ b
      else a @ ''/'' @ b)"

section \<open>The host\<close>

text \<open>
  What the program reads from its environment: \<^verbatim>\<open>sys.platform\<close>, \<^verbatim>\<open>Path.home()\<close>,
  \<^verbatim>\<open>os.path.exists\<close>, \<^verbatim>\<open>os.listdir\<close>, \<^verbatim>\<open>os.makedirs(p, exist_ok=True)\<close> (\<open>Some msg\<close>
  when it raises, \<open>msg\<close> being \<^verbatim>\<open>str(e)\<close>), \<^verbatim>\<open>os.path.abspath\<close> and the opener behind
  \<^verbatim>\<open>open_file_in_os\<close>. The file system is the one the engine sees when it resolves the
  final path, after the extraction has returned.
\<close>

record host =
  platform :: string
  home :: string
  path_exists :: "string \<Rightarrow> bool"
  listdir :: "string \<Rightarrow> string list"
  makedirs :: "string \<Rightarrow> string option"
  abspath :: "string \<Rightarrow> string"
  open_file_in_os :: "string \<Rightarrow> bool"

text \<open>\<^verbatim>\<open>str(Path(p) / c)\<close> for a normalised \<open>p\<close> and a single component \<open>c\<close>, with the
  host's separator (a backslash when \<^verbatim>\<open>sys.platform\<close> is \<^verbatim>\<open>win32\<close>).\<close>

definition path_sep :: "host \<Rightarrow> string" where
  "path_sep h = (if platform h = ''win32'' then [CHR 0x5C] else ''/'')"

definition path_child :: "host \<Rightarrow> string \<Rightarrow> string \<Rightarrow> string" where
  "path_child h p c = (if endswith p (path_sep h) then p @ c else p @ path_sep h @ c)"

subsection \<open>\<^verbatim>\<open>get_default_download_path\<close> (yd4.py)\<close>

definition get_default_download_path :: "host \<Rightarrow> string" where
  "get_default_download_path h =
     (let system = platform h in
      if system = ''win32'' then path_child h (home h) ''ytd''
      else if system = ''darwin'' then path_child h (home h) ''ytd''
      else if startswith system ''linux'' then
        (if path_exists h ''/data/data/com.termux'' then
           (let storage_path = ''/storage/emulated/0'' in
            if path_exists h storage_path then path_child h storage_path ''Download''
            else path_child h (path_child h (home h) ''storage'') ''downloads'')
         else path_child h (home h) ''ytd'')
      else path_child h (home h) ''ytd'')"

section \<open>Python values and exceptions\<close>

text \<open>
  The values a decoded JSON request can hold (\<^verbatim>\<open>json.loads\<close>); a dictionary is the list
  of its items, and a float carries its text. An exception is its class and \<^verbatim>\<open>str(e)\<close>
  is \<open>py_str\<close>. \<open>Raised\<close> is any other subclass of \<^verbatim>\<open>Exception\<close> with its message,
  such as the extractor's own errors.
\<close>

datatype pyval =
    PNone
  | PBool bool
  | PInt int
  | PFloat string
  | PStr string
  | PList "pyval list"
  | PDict "(string \<times> pyval) list"

datatype exc =
    KeyError string
  | AttributeError string string
  | TypeError string
  | ValueError string
  | Raised string

fun py_str :: "exc \<Rightarrow> string" where
  "py_str (KeyError k) = [CHR 0x27] @ k @ [CHR 0x27]"
| "py_str (AttributeError ty attr) =
     [CHR 0x27] @ ty @ [CHR 0x27] @ '' object has no attribute '' @ [CHR 0x27] @ attr @ [CHR 0x27]"
| "py_str (TypeError m) = m"
| "py_str (ValueError m) = m"
| "py_str (Raised m) = m"

fun type_name :: "pyval \<Rightarrow> string" where
  "type_name PNone = ''NoneType''"
| "type_name (PBool b) = ''bool''"
| "type_name (PInt i) = ''int''"
| "type_name (PFloat f) = ''float''"
| "type_name (PStr s) = ''str''"
| "type_name (PList xs) = ''list''"
| "type_name (PDict kvs) = ''dict''"

text \<open>\<^verbatim>\<open>v.get(key, default)\<close>: only a dictionary has the method.\<close>

fun py_get :: "pyval \<Rightarrow> string \<Rightarrow> pyval \<Rightarrow> exc + pyval" where
  "py_get (PDict kvs) k dflt = Inr (case map_of kvs k of None \<Rightarrow> dflt | Some v \<Rightarrow> v)"
| "py_get v k dflt = Inl (AttributeError (type_name v) ''get'')"

text \<open>\<^verbatim>\<open>v[key]\<close>, as \<^verbatim>\<open>Yd.py\<close> reads its request.\<close>

fun py_item :: "pyval \<Rightarrow> string \<Rightarrow> exc + pyval" where
  "py_item (PDict kvs) k = (case map_of kvs k of None \<Rightarrow> Inl (KeyError k) | Some v \<Rightarrow> Inr v)"
| "py_item (PStr s) k = Inl (TypeError ''string indices must be integers'')"
| "py_item (PList xs) k = Inl (TypeError ''list indices must be integers or slices, not str'')"
| "py_item v k =
     Inl (TypeError ([CHR 0x27] @ type_name v @ [CHR 0x27] @ '' object is not subscriptable''))"

text \<open>\<^verbatim>\<open>v.strip()\<close>: only a string has the method.\<close>

fun py_strip :: "pyval \<Rightarrow> exc + string" where
  "py_strip (PStr s) = Inr (strip s)"
| "py_strip v = Inl (AttributeError (type_name v) ''strip'')"

section \<open>The extraction adapter\<close>

text \<open>
  A progress dictionary as the hooks read it: \<^verbatim>\<open>d['status']\<close> (\<open>None\<close> when the key is
  missing, which raises \<^verbatim>\<open>KeyError\<close>), \<^verbatim>\<open>d.get('filename')\<close> and
  \<^verbatim>\<open>d.get('_percent_str')\<close>, both strings when present.
\<close>

record progress_dict =
  status :: "string option"
  filename :: "string option"
  percent_str :: "string option"

text \<open>The info dictionary: \<^verbatim>\<open>ydl.prepare_filename(info)\<close> and \<^verbatim>\<open>info.get('title')\<close>.\<close>

record info_dict =
  prepared_filename :: string
  title :: "string option"

record postprocessor =
  key :: string
  preferredcodec :: string
  preferredquality :: "string option"

text \<open>The options dictionary without its hooks; a key that a file does not set is
  \<open>False\<close>.\<close>

record ydl_opts =
  outtmpl :: string
  quiet :: bool
  nocolor :: bool
  noplaylist :: bool
  no_warnings :: bool
  format :: string
  postprocessors :: "postprocessor list"

text \<open>
  One call of the adapter: the progress dictionaries it hands to the hooks, in order, and
  then how the call ends: it raises, or it returns the info dictionary (\<open>None\<close> for a
  falsy one). An adapter maps the URL it is given (a string in \<^verbatim>\<open>yd4.py\<close>, any decoded
  value in \<^verbatim>\<open>Yd.py\<close>) and the options to such a run.
\<close>

datatype adapter_outcome = Raises exc | Returns "info_dict option"

record adapter_run =
  events :: "progress_dict list"
  outcome :: adapter_outcome

type_synonym adapter = "pyval \<Rightarrow> ydl_opts \<Rightarrow> adapter_run"

text \<open>A front end's hook: it raises, or it hands a list of actions to its front end.\<close>

type_synonym 'a hook = "progress_dict \<Rightarrow> exc + 'a list"

section \<open>\<^verbatim>\<open>DownloaderEngine.download\<close> (yd4.py)\<close>

definition yd4_opts :: "pyval \<Rightarrow> string \<Rightarrow> ydl_opts" where
  "yd4_opts fmt output_path =
     (let base = \<lparr>outtmpl = os_path_join output_path ''%(title)s.%(ext)s'',
                  quiet = True, nocolor = True, noplaylist = True, no_warnings = True,
                  format = [], postprocessors = []\<rparr>
      in if fmt = PStr ''audio''
         then base\<lparr>format := ''bestaudio/best'',
                   postprocessors := [\<lparr>key = ''FFmpegExtractAudio'', preferredcodec = ''mp3'',
                                       preferredquality = Some ''192''\<rparr>]\<rparr>
         else base\<lparr>format := ''bestvideo+bestaudio/best''\<rparr>)"

text \<open>The closure's state: \<^verbatim>\<open>downloaded_file\<close>, and what the front end's hook has sent.\<close>

record 'a hook_state =
  downloaded_file :: "string option"
  emitted :: "'a list"

text \<open>\<^verbatim>\<open>internal_hook\<close>: an exception of \<^verbatim>\<open>hook_callback\<close> is swallowed, a missing
  \<^verbatim>\<open>status\<close> is not.\<close>

definition internal_hook ::
  "'a hook option \<Rightarrow> progress_dict \<Rightarrow> 'a hook_state \<Rightarrow> exc + 'a hook_state" where
  "internal_hook hook_callback d st =
     (case status d of
        None \<Rightarrow> Inl (KeyError ''status'')
      | Some s \<Rightarrow>
          (let st1 = (if s = ''finished'' then st\<lparr>downloaded_file := filename d\<rparr> else st)
           in case hook_callback of
                None \<Rightarrow> Inr st1
              | Some cb \<Rightarrow>
                  (case cb d of
                     Inl e \<Rightarrow> Inr st1
                   | Inr acts \<Rightarrow> Inr (st1\<lparr>emitted := emitted st1 @ acts\<rparr>))))"

text \<open>The adapter calls the registered hook on each progress dictionary; an exception
  of the hook ends the call and is what the call raises.\<close>

fun run_hooks ::
  "(progress_dict \<Rightarrow> 's \<Rightarrow> exc + 's) \<Rightarrow> progress_dict list \<Rightarrow> 's \<Rightarrow> 's \<times> exc option" where
  "run_hooks hk [] st = (st, None)"
| "run_hooks hk (d # ds) st =
     (case hk d st of
        Inl e \<Rightarrow> (st, Some e)
      | Inr st' \<Rightarrow> run_hooks hk ds st')"

definition call_adapter ::
  "adapter \<Rightarrow> pyval \<Rightarrow> ydl_opts \<Rightarrow> (progress_dict \<Rightarrow> 's \<Rightarrow> exc + 's) \<Rightarrow> 's
     \<Rightarrow> 's \<times> adapter_outcome" where
  "call_adapter ydl url opts hk st0 =
     (let run = ydl url opts;
          (st, err) = run_hooks hk (events run) st0
      in case err of Some e \<Rightarrow> (st, Raises e) | None \<Rightarrow> (st, outcome run))"

text \<open>The \<^verbatim>\<open>for file in os.listdir(output_path)\<close> loop.\<close>

fun find_title :: "string \<Rightarrow> string \<Rightarrow> string list \<Rightarrow> string option" where
  "find_title output_path ttl [] = None"
| "find_title output_path ttl (file # files) =
     (if str_in ttl file then Some (os_path_join output_path file)
      else find_title output_path ttl files)"

text \<open>\<^verbatim>\<open>final_file\<close>, the path the engine expects.\<close>

definition final_file :: "pyval \<Rightarrow> info_dict \<Rightarrow> string" where
  "final_file fmt info =
     (if fmt = PStr ''audio''
      then (let base_filename = prepared_filename info
            in fst (splitext base_filename) @ ''.mp3'')
      else prepared_filename info)"

text \<open>The resolution of the final file, once \<^verbatim>\<open>info\<close> is truthy.\<close>

definition resolve_final ::
  "host \<Rightarrow> pyval \<Rightarrow> string \<Rightarrow> info_dict \<Rightarrow> string option \<Rightarrow> bool \<times> string" where
  "resolve_final h fmt output_path info dl_file =
     (if path_exists h (final_file fmt info) then (True, final_file fmt info)
      else case (case dl_file of
                   None \<Rightarrow> None
                 | Some f \<Rightarrow> if f \<noteq> [] \<and> path_exists h f then Some f else None) of
             Some f \<Rightarrow> (True, f)
           | None \<Rightarrow>
               (case (case title info of
                        None \<Rightarrow> None
                      | Some ttl \<Rightarrow>
                          if ttl = [] then None
                          else find_title output_path ttl (listdir h output_path)) of
                  Some found_path \<Rightarrow> (True, found_path)
                | None \<Rightarrow>
                    (False, ''Download completed but file not found in '' @ output_path)))"

text \<open>The \<^verbatim>\<open>except Exception\<close> handler's message.\<close>

definition sanitize :: "string \<Rightarrow> string" where
  "sanitize error_msg =
     (if str_in ''call_from_thread'' error_msg \<or> str_in ''ERROR:'' error_msg
      then ''Download failed. Please check the URL and try again.''
      else error_msg)"

text \<open>A finished call of \<^verbatim>\<open>download\<close>: the returned pair, what the hook sent to the front
  end meanwhile, and the calls of the adapter that were made.\<close>

record 'a job =
  result :: "bool \<times> string"
  sent :: "'a list"
  adapter_calls :: "(pyval \<times> ydl_opts) list"

text \<open>The output directory: the default when the argument is blank, made absolute.\<close>

definition yd4_output_path :: "host \<Rightarrow> string \<Rightarrow> string" where
  "yd4_output_path h output_path =
     abspath h (if output_path = [] \<or> strip output_path = []
                then get_default_download_path h else output_path)"

definition yd4_download ::
  "host \<Rightarrow> adapter \<Rightarrow> string \<Rightarrow> pyval \<Rightarrow> string \<Rightarrow> 'a hook option \<Rightarrow> 'a job" where
  "yd4_download h ydl url fmt output_path0 hook_callback =
     (let output_path = yd4_output_path h output_path0
      in case makedirs h output_path of
           Some e \<Rightarrow> \<lparr>result = (False, ''Failed to create directory: '' @ e),
                      sent = [], adapter_calls = []\<rparr>
         | None \<Rightarrow>
             (let opts = yd4_opts fmt output_path;
                  (st, out) = call_adapter ydl (PStr url) opts (internal_hook hook_callback)
                                \<lparr>downloaded_file = None, emitted = []\<rparr>
              in \<lparr>result =
                    (case out of
                       Returns (Some info) \<Rightarrow>
                         resolve_final h fmt output_path info (downloaded_file st)
                     | Returns None \<Rightarrow> (False, ''Failed to extract video information'')
                     | Raises e \<Rightarrow> (False, sanitize (py_str e))),
                  sent = emitted st,
                  adapter_calls = [(PStr url, opts)]\<rparr>))"

section \<open>\<^verbatim>\<open>DownloaderEngine.download\<close> (Yd.py)\<close>

text \<open>The engine's \<^verbatim>\<open>download_path\<close> is fixed when it is constructed. The hook is
  registered as it is, so what it raises ends the adapter's call.\<close>

definition Yd_opts :: "pyval \<Rightarrow> string \<Rightarrow> ydl_opts" where
  "Yd_opts fmt download_path =
     (let base = \<lparr>outtmpl = download_path @ ''/%(title)s.%(ext)s'',
                  quiet = True, nocolor = True, noplaylist = False, no_warnings = False,
                  format = [], postprocessors = []\<rparr>
      in if fmt = PStr ''audio''
         then base\<lparr>format := ''bestaudio/best'',
                   postprocessors := [\<lparr>key = ''FFmpegExtractAudio'', preferredcodec = ''mp3'',
                                       preferredquality = None\<rparr>]\<rparr>
         else base\<lparr>format := ''bestvideo[ext=mp4]+bestaudio[ext=m4a]/best[ext=mp4]/best''\<rparr>)"

definition Yd_hook_step :: "'a hook \<Rightarrow> progress_dict \<Rightarrow> 'a list \<Rightarrow> exc + 'a list" where
  "Yd_hook_step hook_callback d acts =
     (case hook_callback d of Inl e \<Rightarrow> Inl e | Inr new \<Rightarrow> Inr (acts @ new))"

definition Yd_download :: "string \<Rightarrow> adapter \<Rightarrow> pyval \<Rightarrow> pyval \<Rightarrow> 'a hook \<Rightarrow> 'a job" where
  "Yd_download download_path ydl url fmt hook_callback =
     (let opts = Yd_opts fmt download_path;
          (acts, out) = call_adapter ydl url opts (Yd_hook_step hook_callback) []
      in \<lparr>result = (case out of
                      Returns info \<Rightarrow> (True, ''Finished'')
                    | Raises e \<Rightarrow> (False, py_str e)),
          sent = acts,
          adapter_calls = [(url, opts)]\<rparr>)"

section \<open>Progress hooks of the front ends\<close>

text \<open>
  \<^verbatim>\<open>float(s)\<close> is a parameter of the hooks: \<open>pyfloat s\<close> is \<open>None\<close> where Python raises
  \<^verbatim>\<open>ValueError\<close>, and the parsed number otherwise. A number shown to the user is such a
  parsed float or an integer literal of the source.
\<close>

datatype 'p number = FloatOf 'p | IntLit int

text \<open>What the worker hands to the terminal application through
  \<^verbatim>\<open>call_from_thread\<close>.\<close>

datatype 'p ui_action =
    UpdateProgress 'p
  | WriteLine string
  | FinishUI bool string

text \<open>The messages of the web channel: \<^verbatim>\<open>{type: progress, percent, status}\<close>,
  \<^verbatim>\<open>{type: log, msg}\<close>, \<^verbatim>\<open>{type: done}\<close> with its \<^verbatim>\<open>path\<close> when it has one, and
  \<^verbatim>\<open>{type: error, msg}\<close>.\<close>

datatype 'p ws_message =
    WsProgress "'p number" string
  | WsLog string
  | WsDone "string option"
  | WsError string

text \<open>\<^verbatim>\<open>d.get('_percent_str', '0%')\<close>\<close>

definition get_percent_str :: "progress_dict \<Rightarrow> string" where
  "get_percent_str d = (case percent_str d of None \<Rightarrow> ''0%'' | Some p \<Rightarrow> p)"

text \<open>\<^verbatim>\<open>progress_hook\<close> of \<^verbatim>\<open>YDDL_TUI.download_task\<close> (yd4.py).\<close>

definition yd4_progress_hook :: "(string \<Rightarrow> 'p option) \<Rightarrow> 'p ui_action hook" where
  "yd4_progress_hook pyfloat d =
     (case status d of
        None \<Rightarrow> Inl (KeyError ''status'')
      | Some s \<Rightarrow>
          if s = ''downloading'' then
            (case pyfloat (strip (replace_percent (get_percent_str d))) of
               None \<Rightarrow> Inr []
             | Some percent \<Rightarrow> Inr [UpdateProgress percent])
          else if s = ''finished'' then Inr [WriteLine ''Download complete. Processing...'']
          else Inr [])"

text \<open>\<^verbatim>\<open>web_hook\<close> of \<^verbatim>\<open>websocket_endpoint\<close> (yd4.py).\<close>

definition yd4_web_hook :: "(string \<Rightarrow> 'p option) \<Rightarrow> 'p ws_message hook" where
  "yd4_web_hook pyfloat d =
     (case status d of
        None \<Rightarrow> Inl (KeyError ''status'')
      | Some s \<Rightarrow>
          if s = ''downloading'' then
            (case pyfloat (strip (replace_percent (get_percent_str d))) of
               None \<Rightarrow> Inr []
             | Some percent \<Rightarrow> Inr [WsProgress (FloatOf percent) ''Downloading...''])
          else if s = ''finished'' then Inr [WsProgress (IntLit 100) ''Processing...'']
          else Inr [])"

text \<open>\<^verbatim>\<open>web_hook\<close> of \<^verbatim>\<open>websocket_endpoint\<close> (Yd.py).\<close>

definition Yd_web_hook :: "(string \<Rightarrow> 'p option) \<Rightarrow> 'p ws_message hook" where
  "Yd_web_hook pyfloat d =
     (case status d of
        None \<Rightarrow> Inl (KeyError ''status'')
      | Some s \<Rightarrow>
          if s = ''downloading'' then
            (case pyfloat (replace_percent (get_percent_str d)) of
               None \<Rightarrow> Inr []
             | Some percent \<Rightarrow> Inr [WsProgress (FloatOf percent) ''Downloading...''])
          else if s = ''finished'' then Inr [WsLog ''Processing file...'']
          else Inr [])"

section \<open>The terminal application (yd4.py)\<close>

text \<open>The widgets' values and the application's own fields; \<open>workers\<close> are the calls of
  \<^verbatim>\<open>download_task\<close> handed to \<^verbatim>\<open>run_worker\<close>.\<close>

record 'p tui =
  url_value :: string
  path_value :: string
  aud_value :: bool
  is_downloading :: bool
  last_downloaded_file :: "string option"
  start_disabled :: bool
  open_disabled :: bool
  log_lines :: "string list"
  bar_progress :: "'p number"
  workers :: "(string \<times> pyval \<times> string) list"

definition write_line :: "string \<Rightarrow> 'p tui \<Rightarrow> 'p tui" where
  "write_line l st = st\<lparr>log_lines := log_lines st @ [l]\<rparr>"

definition action_open_last_file :: "host \<Rightarrow> 'p tui \<Rightarrow> 'p tui" where
  "action_open_last_file h st =
     (case (case last_downloaded_file st of
              None \<Rightarrow> None
            | Some f \<Rightarrow> if f \<noteq> [] \<and> path_exists h f then Some f else None) of
        Some f \<Rightarrow>
          (let st1 = write_line (''Opening: '' @ f) st
           in if open_file_in_os h f then st1
              else write_line ''Failed to open file automatically.'' st1)
      | None \<Rightarrow> write_line ''Error: No file available to open.'' st)"

definition on_button_pressed :: "host \<Rightarrow> string \<Rightarrow> 'p tui \<Rightarrow> 'p tui" where
  "on_button_pressed h button_id st =
     (if button_id = ''start'' then
        (if is_downloading st then st
         else
           (let url = strip (url_value st);
                path = strip (path_value st);
                fmt = (if aud_value st then ''audio'' else ''video'')
            in if url = [] then write_line ''Error: No URL provided.'' st
               else
                 (let output_dir = (if path \<noteq> [] then path else get_default_download_path h);
                      st1 = write_line (''Starting '' @ fmt @ '' download...'') st;
                      st2 = write_line (''Output directory: '' @ output_dir) st1
                  in st2\<lparr>start_disabled := True, open_disabled := True,
                         is_downloading := True,
                         workers := workers st2 @ [(url, PStr fmt, path)]\<rparr>)))
      else if button_id = ''open'' then action_open_last_file h st
      else st)"

text \<open>\<^verbatim>\<open>download_task\<close>, in the worker: the engine's call, then \<^verbatim>\<open>finish_ui\<close>.\<close>

definition download_task ::
  "host \<Rightarrow> adapter \<Rightarrow> (string \<Rightarrow> 'p option) \<Rightarrow> string \<Rightarrow> pyval \<Rightarrow> string \<Rightarrow> 'p ui_action job" where
  "download_task h ydl pyfloat url fmt path =
     (let j = yd4_download h ydl url fmt path (Some (yd4_progress_hook pyfloat))
      in j\<lparr>sent := sent j @ [FinishUI (fst (result j)) (snd (result j))]\<rparr>)"

definition finish_ui :: "bool \<Rightarrow> string \<Rightarrow> 'p tui \<Rightarrow> 'p tui" where
  "finish_ui success res st =
     (let st1 = (if success
                 then (write_line (''SUCCESS: Saved to '' @ res)
                         (st\<lparr>last_downloaded_file := Some res\<rparr>))\<lparr>open_disabled := False\<rparr>
                 else write_line (''ERROR: '' @ res) (st\<lparr>last_downloaded_file := None\<rparr>))
      in st1\<lparr>start_disabled := False, bar_progress := IntLit 0, is_downloading := False\<rparr>)"

text \<open>The application's side of \<^verbatim>\<open>call_from_thread\<close>.\<close>

fun ui_step :: "'p ui_action \<Rightarrow> 'p tui \<Rightarrow> 'p tui" where
  "ui_step (UpdateProgress percent) st = st\<lparr>bar_progress := FloatOf percent\<rparr>"
| "ui_step (WriteLine l) st = write_line l st"
| "ui_step (FinishUI success res) st = finish_ui success res st"

section \<open>The web channel\<close>

text \<open>What \<^verbatim>\<open>json.loads\<close> makes of the received text: a decoding error with its message,
  or a value.\<close>

datatype ws_request = NotJson string | Json pyval

text \<open>One connection seen from the client: the messages it receives, in order, and the
  calls of the adapter made for it.\<close>

record 'p ws_session =
  messages :: "'p ws_message list"
  calls :: "(pyval \<times> ydl_opts) list"

subsection \<open>\<^verbatim>\<open>websocket_endpoint\<close> (yd4.py)\<close>

text \<open>The handler up to \<^verbatim>\<open>run_in_executor\<close>: it answers with an error, or it hands a
  download to the executor.\<close>

datatype ws_start = Reject string | Start string pyval string

definition yd4_ws_start :: "host \<Rightarrow> ws_request \<Rightarrow> ws_start" where
  "yd4_ws_start h data =
     (case data of
        NotJson m \<Rightarrow> Reject ''Invalid request format''
      | Json req \<Rightarrow>
          (case py_get req ''url'' (PStr []) of
             Inl e \<Rightarrow> Reject (py_str e)
           | Inr u \<Rightarrow>
               (case py_strip u of
                  Inl e \<Rightarrow> Reject (py_str e)
                | Inr url \<Rightarrow>
                    (case py_get req ''format'' (PStr ''video'') of
                       Inl e \<Rightarrow> Reject (py_str e)
                     | Inr fmt \<Rightarrow>
                         if url = [] then Reject ''No URL provided''
                         else Start url fmt (get_default_download_path h)))))"

text \<open>The download in the executor and the message that follows it.\<close>

definition yd4_ws_job ::
  "host \<Rightarrow> adapter \<Rightarrow> (string \<Rightarrow> 'p option) \<Rightarrow> string \<Rightarrow> pyval \<Rightarrow> string \<Rightarrow> 'p ws_session" where
  "yd4_ws_job h ydl pyfloat url fmt path =
     (let j = yd4_download h ydl url fmt path (Some (yd4_web_hook pyfloat))
      in \<lparr>messages = sent j @ [if fst (result j) then WsDone (Some (snd (result j)))
                                else WsError (snd (result j))],
          calls = adapter_calls j\<rparr>)"

definition yd4_websocket_endpoint ::
  "host \<Rightarrow> adapter \<Rightarrow> (string \<Rightarrow> 'p option) \<Rightarrow> ws_request \<Rightarrow> 'p ws_session" where
  "yd4_websocket_endpoint h ydl pyfloat data =
     (case yd4_ws_start h data of
        Reject m \<Rightarrow> \<lparr>messages = [WsError m], calls = []\<rparr>
      | Start url fmt path \<Rightarrow> yd4_ws_job h ydl pyfloat url fmt path)"

subsection \<open>\<^verbatim>\<open>websocket_endpoint\<close> (Yd.py)\<close>

definition Yd_websocket_endpoint ::
  "string \<Rightarrow> adapter \<Rightarrow> (string \<Rightarrow> 'p option) \<Rightarrow> ws_request \<Rightarrow> 'p ws_session" where
  "Yd_websocket_endpoint download_path ydl pyfloat data =
     (case data of
        NotJson m \<Rightarrow> \<lparr>messages = [WsError m], calls = []\<rparr>
      | Json req \<Rightarrow>
          (case py_item req ''url'' of
             Inl e \<Rightarrow> \<lparr>messages = [WsError (py_str e)], calls = []\<rparr>
           | Inr url \<Rightarrow>
               (case py_item req ''format'' of
                  Inl e \<Rightarrow> \<lparr>messages = [WsError (py_str e)], calls = []\<rparr>
                | Inr fmt \<Rightarrow>
                    (let j = Yd_download download_path ydl url fmt (Yd_web_hook pyfloat)
                     in \<lparr>messages = sent j @ [WsDone None], calls = adapter_calls j\<rparr>))))"

subsection \<open>Several connections on one engine (yd4.py)\<close>

text \<open>
  The server holds one engine for all connections. A connection's handler runs up to
  \<^verbatim>\<open>run_in_executor\<close> when its request arrives, and from there when its download returns;
  between the two the event loop serves the other connections. \<open>running\<close> are the downloads
  in the executor, \<open>outbox\<close> the messages sent, each with its connection.
\<close>

record 'p web_app =
  running :: "(nat \<times> string \<times> pyval \<times> string) list"
  outbox :: "(nat \<times> 'p ws_message) list"
  engine_calls :: "(pyval \<times> ydl_opts) list"

definition app_receive :: "host \<Rightarrow> nat \<Rightarrow> ws_request \<Rightarrow> 'p web_app \<Rightarrow> 'p web_app" where
  "app_receive h conn data app =
     (case yd4_ws_start h data of
        Reject m \<Rightarrow> app\<lparr>outbox := outbox app @ [(conn, WsError m)]\<rparr>
      | Start url fmt path \<Rightarrow> app\<lparr>running := running app @ [(conn, url, fmt, path)]\<rparr>)"

definition app_return ::
  "host \<Rightarrow> adapter \<Rightarrow> (string \<Rightarrow> 'p option) \<Rightarrow> nat \<Rightarrow> 'p web_app \<Rightarrow> 'p web_app" where
  "app_return h ydl pyfloat conn app =
     (case List.find (\<lambda>r. fst r = conn) (running app) of
        None \<Rightarrow> app
      | Some (c, url, fmt, path) \<Rightarrow>
          (let s = yd4_ws_job h ydl pyfloat url fmt path
           in \<lparr>running = filter (\<lambda>r. fst r \<noteq> conn) (running app),
               outbox = outbox app @ map (Pair conn) (messages s),
               engine_calls = engine_calls app @ calls s\<rparr>))"

section \<open>Notions the statements use\<close>

text \<open>An event the hooks can read: it has its \<^verbatim>\<open>status\<close> key.\<close>

definition has_status :: "progress_dict \<Rightarrow> bool" where
  "has_status d = (status d \<noteq> None)"

text \<open>What a front end receives for one event through the engine's hook of
  \<^verbatim>\<open>yd4.py\<close>: the actions of its callback, nothing when the callback raises.\<close>

definition hook_acts :: "'a hook option \<Rightarrow> progress_dict \<Rightarrow> 'a list" where
  "hook_acts cb d =
     (case cb of
        None \<Rightarrow> []
      | Some f \<Rightarrow> (case f d of Inl e \<Rightarrow> [] | Inr acts \<Rightarrow> acts))"

text \<open>The filename carried by the most recent \<^verbatim>\<open>finished\<close> event of a run.\<close>

definition finished_filename :: "progress_dict list \<Rightarrow> string option" where
  "finished_filename evs =
     (case rev (filter (\<lambda>d. status d = Some ''finished'') evs) of
        [] \<Rightarrow> None
      | d # ds \<Rightarrow> filename d)"

fun latest :: "progress_dict list \<Rightarrow> string option \<Rightarrow> string option" where
  "latest [] df = df"
| "latest (d # ds) df = latest ds (if status d = Some ''finished'' then filename d else df)"

text \<open>
  The resolution chain in the specification's words: the expected path if it is on disk;
  else the filename of the \<^verbatim>\<open>finished\<close> event if it is on disk; else the first entry of
  the output directory whose name contains the extracted title; else the failure that
  names the directory. No title is extracted when the key is missing or empty.
\<close>

definition existing_finished :: "host \<Rightarrow> progress_dict list \<Rightarrow> string option" where
  "existing_finished h evs =
     (case finished_filename evs of
        None \<Rightarrow> None
      | Some f \<Rightarrow> if f \<noteq> [] \<and> path_exists h f then Some f else None)"

definition title_scan :: "host \<Rightarrow> string \<Rightarrow> info_dict \<Rightarrow> string option" where
  "title_scan h dir info =
     (case title info of
        None \<Rightarrow> None
      | Some ttl \<Rightarrow>
          if ttl = [] then None
          else map_option (os_path_join dir) (List.find (str_in ttl) (listdir h dir)))"

definition resolution_chain ::
  "host \<Rightarrow> pyval \<Rightarrow> string \<Rightarrow> info_dict \<Rightarrow> progress_dict list \<Rightarrow> bool \<times> string" where
  "resolution_chain h fmt dir info evs =
     (let expected = (if fmt = PStr ''audio''
                      then fst (splitext (prepared_filename info)) @ ''.mp3''
                      else prepared_filename info)
      in if path_exists h expected then (True, expected)
         else case existing_finished h evs of
                Some f \<Rightarrow> (True, f)
              | None \<Rightarrow>
                  (case title_scan h dir info of
                     Some found \<Rightarrow> (True, found)
                   | None \<Rightarrow> (False, ''Download completed but file not found in '' @ dir)))"

text \<open>The messages that end a channel.\<close>

fun terminal :: "'p ws_message \<Rightarrow> bool" where
  "terminal (WsDone path) = True"
| "terminal (WsError m) = True"
| "terminal (WsProgress n s) = False"
| "terminal (WsLog m) = False"

text \<open>The message the specification calls the post-processing event.\<close>

definition postprocessing_100 :: "'p ws_message" where
  "postprocessing_100 = WsProgress (IntLit 100) ''Processing...''"

section \<open>Concrete hosts, adapters and requests\<close>

text \<open>A host whose disk holds exactly the given paths; a directory lists the names
  directly under it.\<close>

definition disk_host :: "string \<Rightarrow> string list \<Rightarrow> host" where
  "disk_host plat files =
     \<lparr>platform = plat, home = ''/home/u'',
      path_exists = (\<lambda>p. List.member files p),
      listdir = (\<lambda>dir. filter (\<lambda>n. \<not> List.member n CHR ''/'')
                         (map (drop (length dir + 1))
                            (filter (\<lambda>f. startswith f (dir @ ''/'')) files))),
      makedirs = (\<lambda>p. None),
      abspath = (\<lambda>p. p),
      open_file_in_os = (\<lambda>p. True)\<rparr>"

text \<open>An adapter whose run is the same for every call.\<close>

definition fixed_adapter :: "adapter_run \<Rightarrow> adapter" where
  "fixed_adapter run url opts = run"

definition downloading :: "string \<Rightarrow> progress_dict" where
  "downloading p = \<lparr>status = Some ''downloading'', filename = None, percent_str = Some p\<rparr>"

definition downloading_no_percent :: progress_dict where
  "downloading_no_percent = \<lparr>status = Some ''downloading'', filename = None, percent_str = None\<rparr>"

definition finished :: "string \<Rightarrow> progress_dict" where
  "finished f = \<lparr>status = Some ''finished'', filename = Some f, percent_str = None\<rparr>"

text \<open>\<^verbatim>\<open>float\<close> on a non-empty run of ASCII digits, which it reads as that number; the
  concrete runs below hold no other numeric text.\<close>

definition digits_float :: "string \<Rightarrow> nat option" where
  "digits_float s =
     (if s \<noteq> [] \<and> list_all (\<lambda>c. 48 \<le> (of_char c :: nat) \<and> (of_char c :: nat) \<le> 57) s
      then Some (foldl (\<lambda>n c. 10 * n + (of_char c - 48)) 0 s)
      else None)"

text \<open>The runs of the specification's scenarios: a song whose source container is
  \<^verbatim>\<open>webm\<close>, a video, and a call that raises.\<close>

definition song_run :: adapter_run where
  "song_run =
     \<lparr>events = [downloading ''10%'', downloading ''55%'', finished ''/d/Song.webm''],
      outcome = Returns (Some \<lparr>prepared_filename = ''/d/Song.webm'', title = Some ''Song''\<rparr>)\<rparr>"

definition title_run :: adapter_run where
  "title_run =
     \<lparr>events = [downloading ''10%'', downloading ''55%'', finished ''/d/Title.mp4''],
      outcome = Returns (Some \<lparr>prepared_filename = ''/d/Title.mp4'', title = Some ''Title''\<rparr>)\<rparr>"

definition failing_run :: adapter_run where
  "failing_run =
     \<lparr>events = [downloading ''10%''],
      outcome = Raises (Raised ''ERROR: [generic] Unable to download webpage'')\<rparr>"

definition video_request :: ws_request where
  "video_request =
     Json (PDict [(''url'', PStr ''https://example/video123''), (''format'', PStr ''video'')])"

definition empty_url_request :: ws_request where
  "empty_url_request = Json (PDict [(''url'', PStr []), (''format'', PStr ''video'')])"

text \<open>A terminal application with a download under way, and a server with one download
  in the executor.\<close>

definition busy_tui :: "nat tui" where
  "busy_tui =
     \<lparr>url_value = ''https://example/other'', path_value = [], aud_value = False,
      is_downloading = True, last_downloaded_file = None,
      start_disabled = True, open_disabled = True,
      log_lines = [''Starting video download...'', ''Output directory: /home/u/ytd''],
      bar_progress = IntLit 0,
      workers = [(''https://example/video123'', PStr ''video'', [])]\<rparr>"

definition busy_app :: "nat web_app" where
  "busy_app =
     \<lparr>running = [(1, ''https://example/first'', PStr ''video'', ''/home/u/ytd'')],
      outbox = [], engine_calls = []\<rparr>"

text \<open>Disks for the scenarios: the transcoded song, the song still in its source
  container, the video, and a sandboxed phone whose shared storage has no download
  folder yet.\<close>

definition mp3_disk :: host where
  "mp3_disk = disk_host ''linux'' [''/d/Song.mp3'']"

definition webm_disk :: host where
  "webm_disk = disk_host ''linux'' [''/d/Song.webm'']"

definition mp4_disk :: host where
  "mp4_disk = disk_host ''linux'' [''/d/Title.mp4'']"

definition termux_host :: host where
  "termux_host = disk_host ''linux'' [''/data/data/com.termux'', ''/storage/emulated/0'']"

text \<open>Runs with a progress event that has no percent field, with one whose percent is
  not a number, and the latter run without that event.\<close>

definition title_info :: info_dict where
  "title_info = \<lparr>prepared_filename = ''/d/Title.mp4'', title = Some ''Title''\<rparr>"

definition no_percent_run :: adapter_run where
  "no_percent_run =
     \<lparr>events = [downloading_no_percent, finished ''/d/Title.mp4''],
      outcome = Returns (Some title_info)\<rparr>"

definition bad_percent_run :: adapter_run where
  "bad_percent_run =
     \<lparr>events = [downloading ''10%''] @ downloading ''N/A'' # [finished ''/d/Title.mp4''],
      outcome = Returns (Some title_info)\<rparr>"

definition good_percent_run :: adapter_run where
  "good_percent_run =
     \<lparr>events = [downloading ''10%''] @ [finished ''/d/Title.mp4''],
      outcome = Returns (Some title_info)\<rparr>"

section \<open>Strings\<close>

lemma endswith_append: "endswith (xs @ ys) ys"
  by (simp add: endswith_def startswith_def)

lemma dropWhile_all: "list_all P s \<Longrightarrow> dropWhile P s = []"
  by (induction s) simp_all

lemma strip_blank: "list_all py_isspace s \<Longrightarrow> strip s = []"
  by (simp add: strip_def dropWhile_all)

lemma sanitize_clean:
  "\<not> str_in ''call_from_thread'' (sanitize m) \<and> \<not> str_in ''ERROR:'' (sanitize m)"
  by (simp add: sanitize_def startswith_def)

section \<open>The engine's hook and the adapter's call\<close>

lemma internal_hook_status:
  "status d = Some s \<Longrightarrow>
   internal_hook cb d st =
     Inr \<lparr>downloaded_file = (if s = ''finished'' then filename d else downloaded_file st),
          emitted = emitted st @ hook_acts cb d\<rparr>"
  by (cases st) (simp add: internal_hook_def hook_acts_def split: option.splits sum.splits)

lemma run_hooks_internal:
  "list_all has_status ds \<Longrightarrow>
   run_hooks (internal_hook cb) ds st =
     (\<lparr>downloaded_file = latest ds (downloaded_file st),
       emitted = emitted st @ concat (map (hook_acts cb) ds)\<rparr>, None)"
proof (induction ds arbitrary: st)
  case Nil
  then show ?case by simp
next
  case (Cons d ds)
  then obtain s where s: "status d = Some s" by (auto simp: has_status_def)
  from Cons show ?case
    by (simp add: internal_hook_status [OF s] s)
qed

lemma latest_append: "latest (xs @ ys) df = latest ys (latest xs df)"
  by (induction xs arbitrary: df) simp_all

lemma latest_finished: "latest ds None = finished_filename ds"
proof (induction ds rule: rev_induct)
  case Nil
  then show ?case by (simp add: finished_filename_def)
next
  case (snoc d ds)
  then show ?case
    by (simp add: latest_append finished_filename_def)
qed

lemma find_title_find:
  "find_title dir ttl files = map_option (os_path_join dir) (List.find (str_in ttl) files)"
  by (induction files) simp_all

lemma resolve_final_chain:
  "resolve_final h fmt dir info (finished_filename evs) = resolution_chain h fmt dir info evs"
  by (simp add: resolve_final_def resolution_chain_def final_file_def existing_finished_def
      title_scan_def find_title_find Let_def split: option.splits)

lemma call_adapter_internal:
  "list_all has_status (events (ydl url opts)) \<Longrightarrow>
   call_adapter ydl url opts (internal_hook cb) \<lparr>downloaded_file = None, emitted = []\<rparr> =
     (\<lparr>downloaded_file = finished_filename (events (ydl url opts)),
       emitted = concat (map (hook_acts cb) (events (ydl url opts)))\<rparr>,
      outcome (ydl url opts))"
  by (simp add: call_adapter_def run_hooks_internal latest_finished Let_def)

text \<open>A call of \<^verbatim>\<open>download\<close> whose directory can be made and whose events all have a
  status.\<close>

lemma yd4_download_returns:
  assumes "makedirs h (yd4_output_path h p) = None"
    and "list_all has_status (events (ydl (PStr url) (yd4_opts fmt (yd4_output_path h p))))"
  shows "yd4_download h ydl url fmt p cb =
     (let dir = yd4_output_path h p; run = ydl (PStr url) (yd4_opts fmt dir)
      in \<lparr>result = (case outcome run of
                       Returns (Some info) \<Rightarrow> resolution_chain h fmt dir info (events run)
                     | Returns None \<Rightarrow> (False, ''Failed to extract video information'')
                     | Raises e \<Rightarrow> (False, sanitize (py_str e))),
          sent = concat (map (hook_acts cb) (events run)),
          adapter_calls = [(PStr url, yd4_opts fmt dir)]\<rparr>)"
  using assms
  by (simp add: yd4_download_def call_adapter_internal resolve_final_chain Let_def
      split: adapter_outcome.split option.split)

text \<open>When the adapter's call raises, so does the call seen through the hooks.\<close>

lemma call_adapter_raises:
  assumes "outcome (ydl url opts) = Raises e"
  shows "\<exists>e'. snd (call_adapter ydl url opts hk st0) = Raises e'"
proof (cases "run_hooks hk (events (ydl url opts)) st0")
  case (Pair st err)
  with assms show ?thesis
    by (cases err) (simp_all add: call_adapter_def Let_def)
qed

lemmas scenario_defs = disk_host_def fixed_adapter_def downloading_def finished_def
  downloading_no_percent_def song_run_def title_run_def failing_run_def has_status_def
  yd4_output_path_def mp3_disk_def webm_disk_def mp4_disk_def termux_host_def
  title_info_def no_percent_run_def bad_percent_run_def good_percent_run_def

section \<open>Resolution of the final path\<close>

text \<open>
  C1. Once the adapter has returned an info dictionary, the pair that \<^verbatim>\<open>download\<close>
  returns is the one the resolution chain gives: the expected path (for \<^verbatim>\<open>audio\<close> the
  prepared filename with its extension replaced by \<^verbatim>\<open>.mp3\<close>, else the prepared
  filename) when it is on disk, else the filename of the \<^verbatim>\<open>finished\<close> event when it is
  on disk, else the first directory entry whose name contains the title, else the failure
  naming the output directory.
\<close>

theorem download_resolves_final_path:
  assumes "makedirs h (yd4_output_path h p) = None"
    and "list_all has_status (events (ydl (PStr url) (yd4_opts fmt (yd4_output_path h p))))"
    and "outcome (ydl (PStr url) (yd4_opts fmt (yd4_output_path h p))) = Returns (Some info)"
  shows "result (yd4_download h ydl url fmt p cb) =
     resolution_chain h fmt (yd4_output_path h p) info
       (events (ydl (PStr url) (yd4_opts fmt (yd4_output_path h p))))"
  using assms by (simp add: yd4_download_returns Let_def)

theorem download_resolves_final_path_witness:
  "makedirs mp3_disk (yd4_output_path mp3_disk ''/d'') = None
   \<and> list_all has_status (events (fixed_adapter song_run (PStr ''https://example/song'')
        (yd4_opts (PStr ''audio'') (yd4_output_path mp3_disk ''/d''))))
   \<and> outcome (fixed_adapter song_run (PStr ''https://example/song'')
        (yd4_opts (PStr ''audio'') (yd4_output_path mp3_disk ''/d'')))
      = Returns (Some \<lparr>prepared_filename = ''/d/Song.webm'', title = Some ''Song''\<rparr>)
   \<and> result (yd4_download mp3_disk (fixed_adapter song_run)
        ''https://example/song'' (PStr ''audio'') ''/d'' (None :: nat hook option))
      = (True, ''/d/Song.mp3'')"
proof -
  let ?o = "yd4_opts (PStr ''audio'') (yd4_output_path mp3_disk ''/d'')"
  let ?info = "\<lparr>prepared_filename = ''/d/Song.webm'', title = Some ''Song''\<rparr>"
  have a: "makedirs mp3_disk (yd4_output_path mp3_disk ''/d'') = None"
    by (simp add: scenario_defs)
  have b: "list_all has_status (events (fixed_adapter song_run (PStr ''https://example/song'') ?o))"
    by (simp add: scenario_defs)
  have c: "outcome (fixed_adapter song_run (PStr ''https://example/song'') ?o) = Returns (Some ?info)"
    by (simp add: scenario_defs)
  have d: "resolution_chain mp3_disk (PStr ''audio'') (yd4_output_path mp3_disk ''/d'') ?info
       (events (fixed_adapter song_run (PStr ''https://example/song'') ?o)) = (True, ''/d/Song.mp3'')"
    by code_simp
  from download_resolves_final_path [where h = mp3_disk and p = "''/d''"
      and ydl = "fixed_adapter song_run" and url = "''https://example/song''"
      and fmt = "PStr ''audio''" and info = "?info" and cb = "None :: nat hook option", OF a b c]
    a b c d
  show ?thesis by simp
qed

text \<open>
  C2, as stated, fails: the song's transcoded file is not on disk, the \<^verbatim>\<open>finished\<close>
  event's file is, and the audio job succeeds with a path that does not end in
  \<^verbatim>\<open>.mp3\<close>.
\<close>

theorem audio_fallback_keeps_source_extension:
  "result (yd4_download webm_disk (fixed_adapter song_run) ''https://example/song''
             (PStr ''audio'') ''/d'' (None :: nat hook option)) = (True, ''/d/Song.webm'')
   \<and> \<not> endswith ''/d/Song.webm'' ''.mp3''"
  by code_simp

text \<open>
  C2, amended. An audio job whose expected path is on disk succeeds with a path that ends
  in \<^verbatim>\<open>.mp3\<close>, whatever extension the prepared filename has.
\<close>

theorem audio_expected_path_ends_in_mp3:
  assumes "makedirs h (yd4_output_path h p) = None"
    and "list_all has_status
           (events (ydl (PStr url) (yd4_opts (PStr ''audio'') (yd4_output_path h p))))"
    and "outcome (ydl (PStr url) (yd4_opts (PStr ''audio'') (yd4_output_path h p)))
           = Returns (Some info)"
    and "path_exists h (fst (splitext (prepared_filename info)) @ ''.mp3'')"
  shows "\<exists>path. result (yd4_download h ydl url (PStr ''audio'') p cb) = (True, path)
           \<and> endswith path ''.mp3''"
  using assms
  by (simp add: yd4_download_returns resolution_chain_def Let_def endswith_append)

theorem audio_expected_path_ends_in_mp3_witness:
  "makedirs mp3_disk (yd4_output_path mp3_disk ''/d'') = None
   \<and> list_all has_status (events (fixed_adapter song_run (PStr ''https://example/song'')
        (yd4_opts (PStr ''audio'') (yd4_output_path mp3_disk ''/d''))))
   \<and> outcome (fixed_adapter song_run (PStr ''https://example/song'')
        (yd4_opts (PStr ''audio'') (yd4_output_path mp3_disk ''/d'')))
      = Returns (Some \<lparr>prepared_filename = ''/d/Song.webm'', title = Some ''Song''\<rparr>)
   \<and> path_exists mp3_disk
        (fst (splitext (prepared_filename
           \<lparr>prepared_filename = ''/d/Song.webm'', title = Some ''Song''\<rparr>)) @ ''.mp3'')
   \<and> (\<exists>path. result (yd4_download mp3_disk (fixed_adapter song_run) ''https://example/song''
                  (PStr ''audio'') ''/d'' (None :: nat hook option)) = (True, path)
          \<and> endswith path ''.mp3'')"
proof -
  let ?o = "yd4_opts (PStr ''audio'') (yd4_output_path mp3_disk ''/d'')"
  let ?info = "\<lparr>prepared_filename = ''/d/Song.webm'', title = Some ''Song''\<rparr>"
  have a: "makedirs mp3_disk (yd4_output_path mp3_disk ''/d'') = None"
    by (simp add: scenario_defs)
  have b: "list_all has_status (events (fixed_adapter song_run (PStr ''https://example/song'') ?o))"
    by (simp add: scenario_defs)
  have c: "outcome (fixed_adapter song_run (PStr ''https://example/song'') ?o) = Returns (Some ?info)"
    by (simp add: scenario_defs)
  have d: "path_exists mp3_disk (fst (splitext (prepared_filename ?info)) @ ''.mp3'')"
    by code_simp
  from audio_expected_path_ends_in_mp3 [where h = mp3_disk and p = "''/d''"
      and ydl = "fixed_adapter song_run" and url = "''https://example/song''"
      and info = "?info" and cb = "None :: nat hook option", OF a b c d]
    a b c d
  show ?thesis by blast
qed


section \<open>Adapter exceptions\<close>

lemma yd4_download_raises:
  assumes "makedirs h (yd4_output_path h p) = None"
    and "outcome (ydl (PStr url) (yd4_opts fmt (yd4_output_path h p))) = Raises e"
  shows "\<exists>e'. result (yd4_download h ydl url fmt p cb) = (False, sanitize (py_str e'))"
proof -
  let ?ca = "call_adapter ydl (PStr url) (yd4_opts fmt (yd4_output_path h p))
               (internal_hook cb) \<lparr>downloaded_file = None, emitted = []\<rparr>"
  from assms(2) obtain e' where "snd ?ca = Raises e'"
    using call_adapter_raises [of ydl "PStr url" "yd4_opts fmt (yd4_output_path h p)" e
        "internal_hook cb" "\<lparr>downloaded_file = None, emitted = []\<rparr>"]
    by blast
  then obtain st where "?ca = (st, Raises e')"
    by (cases ?ca) simp
  with assms(1) have "result (yd4_download h ydl url fmt p cb) = (False, sanitize (py_str e'))"
    by (simp add: yd4_download_def Let_def)
  then show ?thesis ..
qed

text \<open>
  C5. When the adapter's call raises, \<^verbatim>\<open>download\<close> returns a failure whose message
  holds neither \<^verbatim>\<open>call_from_thread\<close> nor \<^verbatim>\<open>ERROR:\<close>; it is the sanitised text of the
  adapter's exception when every event had a status, so that no hook raised first.
\<close>

theorem adapter_exception_becomes_failure:
  assumes "makedirs h (yd4_output_path h p) = None"
    and "outcome (ydl (PStr url) (yd4_opts fmt (yd4_output_path h p))) = Raises e"
  shows "\<exists>m. result (yd4_download h ydl url fmt p cb) = (False, m)
           \<and> \<not> str_in ''call_from_thread'' m \<and> \<not> str_in ''ERROR:'' m
           \<and> (list_all has_status
                 (events (ydl (PStr url) (yd4_opts fmt (yd4_output_path h p))))
                \<longrightarrow> m = sanitize (py_str e))"
proof -
  from assms obtain e'
    where r: "result (yd4_download h ydl url fmt p cb) = (False, sanitize (py_str e'))"
    using yd4_download_raises [of h p ydl url fmt e cb] by blast
  have "list_all has_status (events (ydl (PStr url) (yd4_opts fmt (yd4_output_path h p))))
          \<Longrightarrow> sanitize (py_str e') = sanitize (py_str e)"
    using r assms by (simp add: yd4_download_returns Let_def)
  with r sanitize_clean [of "py_str e'"] show ?thesis by auto
qed

theorem adapter_exception_becomes_failure_witness:
  "makedirs mp4_disk (yd4_output_path mp4_disk ''/d'') = None
   \<and> outcome (fixed_adapter failing_run (PStr ''https://example/gone'')
        (yd4_opts (PStr ''video'') (yd4_output_path mp4_disk ''/d'')))
      = Raises (Raised ''ERROR: [generic] Unable to download webpage'')
   \<and> list_all has_status (events (fixed_adapter failing_run (PStr ''https://example/gone'')
        (yd4_opts (PStr ''video'') (yd4_output_path mp4_disk ''/d''))))
   \<and> result (yd4_download mp4_disk (fixed_adapter failing_run) ''https://example/gone''
        (PStr ''video'') ''/d'' (None :: nat hook option))
      = (False, ''Download failed. Please check the URL and try again.'')"
proof -
  let ?o = "yd4_opts (PStr ''video'') (yd4_output_path mp4_disk ''/d'')"
  let ?e = "Raised ''ERROR: [generic] Unable to download webpage''"
  have a: "makedirs mp4_disk (yd4_output_path mp4_disk ''/d'') = None"
    by (simp add: scenario_defs)
  have b: "outcome (fixed_adapter failing_run (PStr ''https://example/gone'') ?o) = Raises ?e"
    by (simp add: scenario_defs)
  have c: "list_all has_status (events (fixed_adapter failing_run (PStr ''https://example/gone'') ?o))"
    by (simp add: scenario_defs)
  have d: "sanitize (py_str ?e) = ''Download failed. Please check the URL and try again.''"
    by code_simp
  from adapter_exception_becomes_failure [where h = mp4_disk and p = "''/d''"
      and ydl = "fixed_adapter failing_run" and url = "''https://example/gone''"
      and fmt = "PStr ''video''" and e = "?e" and cb = "None :: nat hook option", OF a b]
    a b c d
  show ?thesis by auto
qed

section \<open>Format strings\<close>

lemma resolve_final_video:
  "fmt \<noteq> PStr ''audio'' \<Longrightarrow>
   resolve_final h fmt dir info df = resolve_final h (PStr ''video'') dir info df"
  by (simp add: resolve_final_def final_file_def)

text \<open>
  C10. A format other than \<^verbatim>\<open>audio\<close> is a video download in both engines: the video
  selector, no post-processor, the prepared filename as the expected path, and the same
  call as for \<^verbatim>\<open>video\<close>.
\<close>

theorem other_formats_are_video:
  assumes "fmt \<noteq> PStr ''audio''"
  shows "format (yd4_opts fmt dir) = ''bestvideo+bestaudio/best''
       \<and> postprocessors (yd4_opts fmt dir) = []
       \<and> final_file fmt info = prepared_filename info
       \<and> yd4_download h ydl url fmt p cb = yd4_download h ydl url (PStr ''video'') p cb
       \<and> format (Yd_opts fmt dp) = ''bestvideo[ext=mp4]+bestaudio[ext=m4a]/best[ext=mp4]/best''
       \<and> postprocessors (Yd_opts fmt dp) = []
       \<and> Yd_download dp ydl u fmt cb' = Yd_download dp ydl u (PStr ''video'') cb'"
proof -
  have o: "yd4_opts fmt = yd4_opts (PStr ''video'')"
    using assms by (simp add: yd4_opts_def fun_eq_iff)
  have o': "Yd_opts fmt = Yd_opts (PStr ''video'')"
    using assms by (simp add: Yd_opts_def fun_eq_iff)
  have "yd4_download h ydl url fmt p cb = yd4_download h ydl url (PStr ''video'') p cb"
    by (simp add: yd4_download_def o resolve_final_video [OF assms] Let_def
        split: option.split prod.split adapter_outcome.split)
  moreover have "Yd_download dp ydl u fmt cb' = Yd_download dp ydl u (PStr ''video'') cb'"
    by (simp add: Yd_download_def o' Let_def)
  moreover have "format (yd4_opts fmt dir) = ''bestvideo+bestaudio/best''
       \<and> postprocessors (yd4_opts fmt dir) = []"
    using assms by (simp add: yd4_opts_def)
  moreover have "format (Yd_opts fmt dp) = ''bestvideo[ext=mp4]+bestaudio[ext=m4a]/best[ext=mp4]/best''
       \<and> postprocessors (Yd_opts fmt dp) = []"
    using assms by (simp add: Yd_opts_def)
  moreover have "final_file fmt info = prepared_filename info"
    using assms by (simp add: final_file_def)
  ultimately show ?thesis by simp
qed

theorem other_formats_are_video_witness:
  "PStr [] \<noteq> PStr ''audio''
   \<and> format (yd4_opts (PStr []) ''/d'') = ''bestvideo+bestaudio/best''
   \<and> postprocessors (yd4_opts (PStr []) ''/d'') = []
   \<and> final_file (PStr []) title_info = ''/d/Title.mp4''
   \<and> result (yd4_download mp4_disk (fixed_adapter title_run) ''https://example/video123''
        (PStr []) ''/d'' (None :: nat hook option)) = (True, ''/d/Title.mp4'')
   \<and> postprocessors (Yd_opts (PStr []) ''/cwd/downloads'') = []"
proof -
  have a: "PStr [] \<noteq> PStr ''audio''" by simp
  have b: "result (yd4_download mp4_disk (fixed_adapter title_run) ''https://example/video123''
        (PStr ''video'') ''/d'' (None :: nat hook option)) = (True, ''/d/Title.mp4'')"
    by code_simp
  have c: "prepared_filename title_info = ''/d/Title.mp4''"
    by (simp add: title_info_def)
  note w = other_formats_are_video [OF a, where dir = "''/d''" and info = title_info
      and h = mp4_disk and ydl = "fixed_adapter title_run" and url = "''https://example/video123''"
      and p = "''/d''" and cb = "None :: nat hook option" and dp = "''/cwd/downloads''"
      and u = "PStr ''https://example/video123''" and cb' = "Yd_web_hook digits_float"]
  from w have e: "yd4_download mp4_disk (fixed_adapter title_run) ''https://example/video123''
        (PStr []) ''/d'' (None :: nat hook option)
      = yd4_download mp4_disk (fixed_adapter title_run) ''https://example/video123''
        (PStr ''video'') ''/d'' None"
    by (elim conjE)
  from w have f: "final_file (PStr []) title_info = prepared_filename title_info"
    by (elim conjE)
  from w have g: "format (yd4_opts (PStr []) ''/d'') = ''bestvideo+bestaudio/best''"
    by (elim conjE)
  from w have i: "postprocessors (yd4_opts (PStr []) ''/d'') = []"
    by (elim conjE)
  from w have j: "postprocessors (Yd_opts (PStr []) ''/cwd/downloads'') = []"
    by (elim conjE)
  from a b c e f g i j show ?thesis by (simp only: simp_thms)
qed

section \<open>The default download path\<close>

text \<open>
  C8, as stated, fails: on the sandboxed phone the shared download folder does not exist,
  yet it is what the resolver returns, not the folder under home.
\<close>

theorem default_path_ignores_missing_download_folder:
  "get_default_download_path termux_host = ''/storage/emulated/0/Download''
   \<and> \<not> path_exists termux_host ''/storage/emulated/0/Download''
   \<and> get_default_download_path termux_host
       \<noteq> path_child termux_host (path_child termux_host (home termux_host) ''storage'') ''downloads''"
  by code_simp

text \<open>
  C8, amended. The resolver returns \<^verbatim>\<open><home>/ytd\<close> except on a Linux host that has the
  marker path \<^verbatim>\<open>/data/data/com.termux\<close>; there it returns
  \<^verbatim>\<open>/storage/emulated/0/Download\<close> if the shared storage root \<^verbatim>\<open>/storage/emulated/0\<close>
  exists, and \<^verbatim>\<open><home>/storage/downloads\<close> otherwise.
\<close>

theorem default_download_path_cases:
  "get_default_download_path h =
     (if startswith (platform h) ''linux'' \<and> path_exists h ''/data/data/com.termux''
      then (if path_exists h ''/storage/emulated/0'' then ''/storage/emulated/0/Download''
            else path_child h (path_child h (home h) ''storage'') ''downloads'')
      else path_child h (home h) ''ytd'')"
proof -
  have "path_child h ''/storage/emulated/0'' ''Download'' = ''/storage/emulated/0/Download''"
    if "startswith (platform h) ''linux''"
  proof -
    from that have "platform h \<noteq> ''win32''"
      by (auto simp: startswith_def)
    then show ?thesis
      by (simp add: path_child_def path_sep_def endswith_def startswith_def)
  qed
  then show ?thesis
    by (simp add: get_default_download_path_def Let_def startswith_def)
qed

theorem default_download_path_cases_witness:
  "get_default_download_path termux_host = ''/storage/emulated/0/Download''
   \<and> get_default_download_path mp4_disk = ''/home/u/ytd''
   \<and> get_default_download_path (disk_host ''linux'' [''/data/data/com.termux''])
       = ''/home/u/storage/downloads''
   \<and> get_default_download_path (disk_host ''win32'' []) = ''/home/u'' @ [CHR 0x5C] @ ''ytd''"
proof -
  have a: "startswith (platform termux_host) ''linux'' \<and> path_exists termux_host ''/data/data/com.termux''
      \<and> path_exists termux_host ''/storage/emulated/0''"
    by code_simp
  have b: "\<not> path_exists mp4_disk ''/data/data/com.termux''
      \<and> path_child mp4_disk (home mp4_disk) ''ytd'' = ''/home/u/ytd''"
    by code_simp
  have c: "get_default_download_path (disk_host ''linux'' [''/data/data/com.termux''])
       = ''/home/u/storage/downloads''"
    by code_simp
  have d: "get_default_download_path (disk_host ''win32'' []) = ''/home/u'' @ [CHR 0x5C] @ ''ytd''"
    by code_simp
  from default_download_path_cases [of termux_host] default_download_path_cases [of mp4_disk]
    a b c d
  show ?thesis by simp
qed


section \<open>Malformed progress events\<close>

lemma run_hooks_skip:
  assumes "\<And>s. hk d s = Inr s"
  shows "run_hooks hk (pre @ d # post) st = run_hooks hk (pre @ post) st"
  by (induction pre arbitrary: st) (simp_all add: assms split: sum.split)

lemma call_adapter_skip:
  assumes "\<And>s. hk d s = Inr s"
    and "events (ydla url opts) = pre @ d # post"
    and "events (ydlb url opts) = pre @ post"
    and "outcome (ydla url opts) = outcome (ydlb url opts)"
  shows "call_adapter ydla url opts hk st0 = call_adapter ydlb url opts hk st0"
  using assms(2-4) by (simp add: call_adapter_def run_hooks_skip [of hk d, OF assms(1)])

lemma internal_hook_dropped:
  assumes "status d = Some ''downloading''" and "cb d = Inr []"
  shows "internal_hook (Some cb) d st = Inr st"
  using assms by (simp add: internal_hook_def)

text \<open>
  C6, as stated, fails for the missing field: the terminal hook reads a
  \<^verbatim>\<open>downloading\<close> event without \<^verbatim>\<open>_percent_str\<close> as \<^verbatim>\<open>0%\<close> and hands a progress of 0 to
  the application; the event is not dropped.
\<close>

theorem missing_percent_is_reported_as_zero:
  "sent (download_task mp4_disk (fixed_adapter no_percent_run) digits_float
           ''https://example/video123'' (PStr ''video'') ''/d'')
     = [UpdateProgress 0, WriteLine ''Download complete. Processing...'',
        FinishUI True ''/d/Title.mp4'']"
  by code_simp

text \<open>
  C6, amended. A \<^verbatim>\<open>downloading\<close> event whose percent field is present and does not parse
  is dropped by both hooks of \<^verbatim>\<open>yd4.py\<close>, the engine's hook returns with its state as it
  was, and the whole job (result, what the front end receives, the adapter's calls) is the
  job of the run without that event. A missing percent field is read as \<^verbatim>\<open>0%\<close>.
\<close>

theorem unparsable_percent_is_dropped:
  assumes "status d = Some ''downloading''"
    and "percent_str d = Some pc"
    and "pyfloat (strip (replace_percent pc)) = None"
    and "events (ydla (PStr url) (yd4_opts fmt (yd4_output_path h p))) = pre @ d # post"
    and "events (ydlb (PStr url) (yd4_opts fmt (yd4_output_path h p))) = pre @ post"
    and "outcome (ydla (PStr url) (yd4_opts fmt (yd4_output_path h p)))
           = outcome (ydlb (PStr url) (yd4_opts fmt (yd4_output_path h p)))"
  shows "yd4_progress_hook pyfloat d = Inr []
       \<and> yd4_web_hook pyfloat d = Inr []
       \<and> internal_hook (Some (yd4_progress_hook pyfloat)) d st = Inr st
       \<and> download_task h ydla pyfloat url fmt p = download_task h ydlb pyfloat url fmt p
       \<and> yd4_progress_hook pyfloat (dz\<lparr>percent_str := None\<rparr>)
           = yd4_progress_hook pyfloat (dz\<lparr>percent_str := Some ''0%''\<rparr>)"
proof -
  have a: "yd4_progress_hook pyfloat d = Inr []"
    using assms(1-3) by (simp add: yd4_progress_hook_def get_percent_str_def)
  have b: "yd4_web_hook pyfloat d = Inr []"
    using assms(1-3) by (simp add: yd4_web_hook_def get_percent_str_def)
  have c: "internal_hook (Some (yd4_progress_hook pyfloat)) d s = Inr s" for s
    using assms(1) a by (rule internal_hook_dropped)
  have "call_adapter ydla (PStr url) (yd4_opts fmt (yd4_output_path h p))
          (internal_hook (Some (yd4_progress_hook pyfloat))) \<lparr>downloaded_file = None, emitted = []\<rparr>
      = call_adapter ydlb (PStr url) (yd4_opts fmt (yd4_output_path h p))
          (internal_hook (Some (yd4_progress_hook pyfloat))) \<lparr>downloaded_file = None, emitted = []\<rparr>"
    using c assms(4-6) by (rule call_adapter_skip)
  then have e: "download_task h ydla pyfloat url fmt p = download_task h ydlb pyfloat url fmt p"
    by (simp add: download_task_def yd4_download_def Let_def split: option.split)
  have "get_percent_str (dz\<lparr>percent_str := None\<rparr>)
          = get_percent_str (dz\<lparr>percent_str := Some ''0%''\<rparr>)"
    by (simp add: get_percent_str_def)
  then have f: "yd4_progress_hook pyfloat (dz\<lparr>percent_str := None\<rparr>)
           = yd4_progress_hook pyfloat (dz\<lparr>percent_str := Some ''0%''\<rparr>)"
    by (cases "status dz") (simp_all add: yd4_progress_hook_def)
  from a b c e f show ?thesis by simp
qed

theorem unparsable_percent_is_dropped_witness:
  "status (downloading ''N/A'') = Some ''downloading''
   \<and> percent_str (downloading ''N/A'') = Some ''N/A''
   \<and> digits_float (strip (replace_percent ''N/A'')) = None
   \<and> events (fixed_adapter bad_percent_run (PStr ''https://example/video123'')
        (yd4_opts (PStr ''video'') (yd4_output_path mp4_disk ''/d'')))
      = [downloading ''10%''] @ downloading ''N/A'' # [finished ''/d/Title.mp4'']
   \<and> events (fixed_adapter good_percent_run (PStr ''https://example/video123'')
        (yd4_opts (PStr ''video'') (yd4_output_path mp4_disk ''/d'')))
      = [downloading ''10%''] @ [finished ''/d/Title.mp4'']
   \<and> outcome (fixed_adapter bad_percent_run (PStr ''https://example/video123'')
        (yd4_opts (PStr ''video'') (yd4_output_path mp4_disk ''/d'')))
      = outcome (fixed_adapter good_percent_run (PStr ''https://example/video123'')
        (yd4_opts (PStr ''video'') (yd4_output_path mp4_disk ''/d'')))
   \<and> yd4_progress_hook digits_float (downloading ''N/A'') = Inr []
   \<and> sent (download_task mp4_disk (fixed_adapter bad_percent_run) digits_float
        ''https://example/video123'' (PStr ''video'') ''/d'')
      = [UpdateProgress 10, WriteLine ''Download complete. Processing...'',
         FinishUI True ''/d/Title.mp4'']"
proof -
  let ?o = "yd4_opts (PStr ''video'') (yd4_output_path mp4_disk ''/d'')"
  let ?u = "PStr ''https://example/video123''"
  have a: "status (downloading ''N/A'') = Some ''downloading''"
    by (simp add: downloading_def)
  have b: "percent_str (downloading ''N/A'') = Some ''N/A''"
    by (simp add: downloading_def)
  have c: "digits_float (strip (replace_percent ''N/A'')) = None"
    by code_simp
  have d: "events (fixed_adapter bad_percent_run ?u ?o)
      = [downloading ''10%''] @ downloading ''N/A'' # [finished ''/d/Title.mp4'']"
    by (simp add: fixed_adapter_def bad_percent_run_def)
  have e: "events (fixed_adapter good_percent_run ?u ?o)
      = [downloading ''10%''] @ [finished ''/d/Title.mp4'']"
    by (simp add: fixed_adapter_def good_percent_run_def)
  have f: "outcome (fixed_adapter bad_percent_run ?u ?o) = outcome (fixed_adapter good_percent_run ?u ?o)"
    by (simp add: fixed_adapter_def bad_percent_run_def good_percent_run_def)
  have g: "sent (download_task mp4_disk (fixed_adapter good_percent_run) digits_float
        ''https://example/video123'' (PStr ''video'') ''/d'')
      = [UpdateProgress 10, WriteLine ''Download complete. Processing...'',
         FinishUI True ''/d/Title.mp4'']"
    by code_simp
  note w = unparsable_percent_is_dropped [where d = "downloading ''N/A''" and pc = "''N/A''"
      and pyfloat = digits_float and ydla = "fixed_adapter bad_percent_run"
      and ydlb = "fixed_adapter good_percent_run" and url = "''https://example/video123''"
      and fmt = "PStr ''video''" and h = mp4_disk and p = "''/d''"
      and pre = "[downloading ''10%'']" and post = "[finished ''/d/Title.mp4'']"
      and st = "\<lparr>downloaded_file = None, emitted = []\<rparr>" and dz = "downloading ''N/A''",
      OF a b c d e f]
  from w have i: "yd4_progress_hook digits_float (downloading ''N/A'') = Inr []"
    by (elim conjE)
  from w have j: "download_task mp4_disk (fixed_adapter bad_percent_run) digits_float
        ''https://example/video123'' (PStr ''video'') ''/d''
      = download_task mp4_disk (fixed_adapter good_percent_run) digits_float
        ''https://example/video123'' (PStr ''video'') ''/d''"
    by (elim conjE)
  from a b c d e f g i j show ?thesis by (simp only: simp_thms)
qed

section \<open>Finished events\<close>

lemma yd4_web_hook_finished:
  "status d = Some ''finished'' \<Longrightarrow> yd4_web_hook pf d = Inr [postprocessing_100]"
  by (simp add: yd4_web_hook_def postprocessing_100_def)

lemma yd4_progress_hook_finished:
  "status d = Some ''finished'' \<Longrightarrow>
   yd4_progress_hook pf d = Inr [WriteLine ''Download complete. Processing...'']"
  by (simp add: yd4_progress_hook_def)

lemma web_acts_postprocessing:
  "has_status d \<Longrightarrow>
   filter (\<lambda>m. m = postprocessing_100) (hook_acts (Some (yd4_web_hook pf)) d)
     = (if status d = Some ''finished'' then [postprocessing_100] else [])"
  by (auto simp: has_status_def hook_acts_def yd4_web_hook_def postprocessing_100_def
      split: option.splits)

lemma web_acts_postprocessing_count:
  "list_all has_status evs \<Longrightarrow>
   length (filter (\<lambda>m. m = postprocessing_100)
             (concat (map (hook_acts (Some (yd4_web_hook pf))) evs)))
     = length (filter (\<lambda>d. status d = Some ''finished'') evs)"
  by (induction evs) (simp_all add: web_acts_postprocessing)

text \<open>
  C7, as stated, fails in the terminal front end: for the video scenario the application
  receives the two percents, then a log line for the \<^verbatim>\<open>finished\<close> event, then the result;
  no percent of 100 is sent.
\<close>

theorem terminal_finished_event_is_a_log_line:
  "sent (download_task mp4_disk (fixed_adapter title_run) digits_float
           ''https://example/video123'' (PStr ''video'') ''/d'')
     = [UpdateProgress 10, UpdateProgress 55, WriteLine ''Download complete. Processing...'',
        FinishUI True ''/d/Title.mp4'']"
  by code_simp

text \<open>
  C7, amended. A \<^verbatim>\<open>finished\<close> event gives the front end one notification, before the
  terminal result: on the web channel of \<^verbatim>\<open>yd4.py\<close> a progress message with percent 100
  and status \<^verbatim>\<open>Processing...\<close> (as many of them as there are \<^verbatim>\<open>finished\<close> events), in the
  terminal application the log line \<^verbatim>\<open>Download complete. Processing...\<close>, on the web
  channel of \<^verbatim>\<open>Yd.py\<close> the log message \<^verbatim>\<open>Processing file...\<close>.
\<close>

theorem finished_event_notifies_front_end:
  assumes "status d = Some ''finished''"
    and "makedirs h (yd4_output_path h p) = None"
    and "events (ydl (PStr url) (yd4_opts fmt (yd4_output_path h p))) = pre @ d # post"
    and "list_all has_status (pre @ post)"
  shows "messages (yd4_ws_job h ydl pf url fmt p)
           = concat (map (hook_acts (Some (yd4_web_hook pf))) pre) @ [postprocessing_100]
             @ concat (map (hook_acts (Some (yd4_web_hook pf))) post)
             @ [let r = result (yd4_download h ydl url fmt p (Some (yd4_web_hook pf)))
                in if fst r then WsDone (Some (snd r)) else WsError (snd r)]
       \<and> length (filter (\<lambda>m. m = postprocessing_100) (messages (yd4_ws_job h ydl pf url fmt p)))
           = length (filter (\<lambda>e. status e = Some ''finished'') (pre @ d # post))
       \<and> sent (download_task h ydl pf' url fmt p)
           = concat (map (hook_acts (Some (yd4_progress_hook pf'))) pre)
             @ [WriteLine ''Download complete. Processing...'']
             @ concat (map (hook_acts (Some (yd4_progress_hook pf'))) post)
             @ [let r = result (yd4_download h ydl url fmt p (Some (yd4_progress_hook pf')))
                in FinishUI (fst r) (snd r)]
       \<and> Yd_web_hook pf d = Inr [WsLog ''Processing file...'']"
proof -
  let ?evs = "events (ydl (PStr url) (yd4_opts fmt (yd4_output_path h p)))"
  have hs: "list_all has_status ?evs"
    using assms(1,3,4) by (simp add: has_status_def)
  have s: "sent (yd4_download h ydl url fmt p cb) = concat (map (hook_acts cb) (pre @ d # post))" for cb :: "'x hook option"
    using yd4_download_returns [where h = h and p = p and ydl = ydl and url = url
        and fmt = fmt and cb = cb, OF assms(2) hs] assms(3)
    by (simp add: Let_def)
  have w: "hook_acts (Some (yd4_web_hook pf)) d = [postprocessing_100]"
    by (simp add: hook_acts_def yd4_web_hook_finished [OF assms(1)])
  have t: "hook_acts (Some (yd4_progress_hook pf')) d = [WriteLine ''Download complete. Processing...'']"
    by (simp add: hook_acts_def yd4_progress_hook_finished [OF assms(1)])
  have m: "messages (yd4_ws_job h ydl pf url fmt p)
           = concat (map (hook_acts (Some (yd4_web_hook pf))) pre) @ [postprocessing_100]
             @ concat (map (hook_acts (Some (yd4_web_hook pf))) post)
             @ [let r = result (yd4_download h ydl url fmt p (Some (yd4_web_hook pf)))
                in if fst r then WsDone (Some (snd r)) else WsError (snd r)]"
    by (simp add: yd4_ws_job_def Let_def s w)
  have c: "length (filter (\<lambda>m. m = postprocessing_100) (messages (yd4_ws_job h ydl pf url fmt p)))
           = length (filter (\<lambda>e. status e = Some ''finished'') (pre @ d # post))"
    using web_acts_postprocessing_count [OF hs, of pf] assms(3)
    by (simp add: yd4_ws_job_def Let_def s postprocessing_100_def)
  have u: "sent (download_task h ydl pf' url fmt p)
           = concat (map (hook_acts (Some (yd4_progress_hook pf'))) pre)
             @ [WriteLine ''Download complete. Processing...'']
             @ concat (map (hook_acts (Some (yd4_progress_hook pf'))) post)
             @ [let r = result (yd4_download h ydl url fmt p (Some (yd4_progress_hook pf')))
                in FinishUI (fst r) (snd r)]"
    by (simp add: download_task_def Let_def s t)
  have y: "Yd_web_hook pf d = Inr [WsLog ''Processing file...'']"
    using assms(1) by (simp add: Yd_web_hook_def)
  from m c u y show ?thesis by (simp only: simp_thms)
qed

theorem finished_event_notifies_front_end_witness:
  "status (finished ''/d/Title.mp4'') = Some ''finished''
   \<and> makedirs mp4_disk (yd4_output_path mp4_disk ''/d'') = None
   \<and> events (fixed_adapter title_run (PStr ''https://example/video123'')
        (yd4_opts (PStr ''video'') (yd4_output_path mp4_disk ''/d'')))
      = [downloading ''10%'', downloading ''55%''] @ finished ''/d/Title.mp4'' # []
   \<and> list_all has_status ([downloading ''10%'', downloading ''55%''] @ [])
   \<and> messages (yd4_ws_job mp4_disk (fixed_adapter title_run) digits_float
        ''https://example/video123'' (PStr ''video'') ''/d'')
      = [WsProgress (FloatOf 10) ''Downloading...'', WsProgress (FloatOf 55) ''Downloading...'',
         WsProgress (IntLit 100) ''Processing...'', WsDone (Some ''/d/Title.mp4'')]
   \<and> Yd_web_hook digits_float (finished ''/d/Title.mp4'') = Inr [WsLog ''Processing file...'']"
proof -
  let ?o = "yd4_opts (PStr ''video'') (yd4_output_path mp4_disk ''/d'')"
  let ?u = "PStr ''https://example/video123''"
  let ?pre = "[downloading ''10%'', downloading ''55%'']"
  have a: "status (finished ''/d/Title.mp4'') = Some ''finished''"
    by (simp add: finished_def)
  have b: "makedirs mp4_disk (yd4_output_path mp4_disk ''/d'') = None"
    by (simp add: scenario_defs)
  have c: "events (fixed_adapter title_run ?u ?o) = ?pre @ finished ''/d/Title.mp4'' # []"
    by (simp add: fixed_adapter_def title_run_def)
  have d: "list_all has_status (?pre @ [])"
    by (simp add: has_status_def downloading_def)
  note w = finished_event_notifies_front_end [where d = "finished ''/d/Title.mp4''"
      and h = mp4_disk and p = "''/d''" and ydl = "fixed_adapter title_run"
      and url = "''https://example/video123''" and fmt = "PStr ''video''"
      and pre = ?pre and post = "[]" and pf = digits_float and pf' = digits_float,
      OF a b c d]
  from w have e: "messages (yd4_ws_job mp4_disk (fixed_adapter title_run) digits_float
        ''https://example/video123'' (PStr ''video'') ''/d'')
      = concat (map (hook_acts (Some (yd4_web_hook digits_float))) ?pre) @ [postprocessing_100]
        @ concat (map (hook_acts (Some (yd4_web_hook digits_float))) [])
        @ [let r = result (yd4_download mp4_disk (fixed_adapter title_run)
                     ''https://example/video123'' (PStr ''video'') ''/d''
                     (Some (yd4_web_hook digits_float)))
           in if fst r then WsDone (Some (snd r)) else WsError (snd r)]"
    by (elim conjE)
  have f: "concat (map (hook_acts (Some (yd4_web_hook digits_float))) ?pre) @ [postprocessing_100]
        @ concat (map (hook_acts (Some (yd4_web_hook digits_float))) [])
        @ [let r = result (yd4_download mp4_disk (fixed_adapter title_run)
                     ''https://example/video123'' (PStr ''video'') ''/d''
                     (Some (yd4_web_hook digits_float)))
           in if fst r then WsDone (Some (snd r)) else WsError (snd r)]
      = [WsProgress (FloatOf 10) ''Downloading...'', WsProgress (FloatOf 55) ''Downloading...'',
         WsProgress (IntLit 100) ''Processing...'', WsDone (Some ''/d/Title.mp4'')]"
    by code_simp
  from w have g: "Yd_web_hook digits_float (finished ''/d/Title.mp4'') = Inr [WsLog ''Processing file...'']"
    by (elim conjE)
  from a b c d e f g show ?thesis by (simp only: simp_thms)
qed


section \<open>Start requests\<close>

text \<open>Both front ends of \<^verbatim>\<open>yd4.py\<close> refuse a blank URL before the engine is called.\<close>

lemma yd4_endpoint_rejects_blank_url:
  assumes "py_get (PDict kvs) ''url'' (PStr []) = Inr (PStr u)"
    and "list_all py_isspace u"
  shows "yd4_websocket_endpoint h ydl pf (Json (PDict kvs))
           = \<lparr>messages = [WsError ''No URL provided''], calls = []\<rparr>"
proof -
  from assms(1) have "(case map_of kvs ''url'' of None \<Rightarrow> PStr [] | Some v \<Rightarrow> v) = PStr u"
    by simp
  then have "yd4_ws_start h (Json (PDict kvs)) = Reject ''No URL provided''"
    by (simp add: yd4_ws_start_def strip_blank [OF assms(2)])
  then show ?thesis
    by (simp add: yd4_websocket_endpoint_def)
qed

lemma on_button_pressed_rejects_blank_url:
  assumes "\<not> is_downloading st" and "list_all py_isspace (url_value st)"
  shows "on_button_pressed h ''start'' st = write_line ''Error: No URL provided.'' st"
  using assms(1) by (simp add: on_button_pressed_def strip_blank [OF assms(2)] Let_def)

text \<open>
  C3 does not hold for \<^verbatim>\<open>websocket_endpoint\<close> of \<^verbatim>\<open>Yd.py\<close>: it reads \<^verbatim>\<open>req['url']\<close> and
  calls the engine without looking at it. For the request with the empty URL the adapter
  is called once, with that URL, and the channel ends with \<^verbatim>\<open>done\<close>.
\<close>

theorem Yd_endpoint_downloads_empty_url:
  "calls (Yd_websocket_endpoint dp ydl pf empty_url_request)
     = [(PStr [], Yd_opts (PStr ''video'') dp)]
   \<and> last (messages (Yd_websocket_endpoint dp ydl pf empty_url_request)) = WsDone None"
  by (simp add: Yd_websocket_endpoint_def empty_url_request_def Yd_download_def Let_def
      split: prod.split)

section \<open>A start while a download runs\<close>

text \<open>When the worker's result arrives, the application is idle again and the start
  button is enabled.\<close>

lemma finish_ui_idle:
  "\<not> is_downloading (finish_ui success res st) \<and> \<not> start_disabled (finish_ui success res st)
   \<and> workers (finish_ui success res st) = workers st"
  by (simp add: finish_ui_def write_line_def Let_def)

text \<open>
  C4, as stated, fails: the engine keeps no running state. With one download in the
  executor, the server takes a second valid request as it takes the first: the download
  joins the running ones, no error is sent, and the engine calls the adapter for both.
\<close>

theorem second_start_is_accepted:
  "app_receive mp4_disk 2 video_request busy_app
     = \<lparr>running = [(1, ''https://example/first'', PStr ''video'', ''/home/u/ytd''),
                   (2, ''https://example/video123'', PStr ''video'', ''/home/u/ytd'')],
        outbox = [], engine_calls = []\<rparr>
   \<and> map fst (engine_calls
        (app_return mp4_disk (fixed_adapter title_run) digits_float 2
          (app_return mp4_disk (fixed_adapter title_run) digits_float 1
            (app_receive mp4_disk 2 video_request busy_app))))
       = [PStr ''https://example/first'', PStr ''https://example/video123'']"
  by code_simp

text \<open>
  C4, amended. In the terminal application of \<^verbatim>\<open>yd4.py\<close> a press of the start button
  while \<^verbatim>\<open>is_downloading\<close> is set changes nothing: no field, no log line, no new worker.
\<close>

theorem start_while_downloading_is_ignored:
  assumes "is_downloading st"
  shows "on_button_pressed h ''start'' st = st"
  using assms by (simp add: on_button_pressed_def)

theorem start_while_downloading_is_ignored_witness:
  "is_downloading busy_tui \<and> on_button_pressed mp4_disk ''start'' busy_tui = busy_tui"
proof -
  have a: "is_downloading busy_tui"
    by (simp add: busy_tui_def)
  from start_while_downloading_is_ignored [OF a, of mp4_disk] a show ?thesis
    by (simp only: simp_thms)
qed

section \<open>The end of a channel\<close>

lemma run_hooks_invariant:
  assumes "\<And>d s s'. I s \<Longrightarrow> hk d s = Inr s' \<Longrightarrow> I s'"
  shows "I st \<Longrightarrow> I (fst (run_hooks hk ds st))"
proof (induction ds arbitrary: st)
  case Nil
  then show ?case by simp
next
  case (Cons d ds)
  show ?case
  proof (cases "hk d st")
    case (Inl e)
    with Cons.prems show ?thesis by simp
  next
    case (Inr s')
    with Cons.prems have "I s'" by (rule assms)
    then have "I (fst (run_hooks hk ds s'))" by (rule Cons.IH)
    with Inr show ?thesis by simp
  qed
qed

lemma fst_call_adapter:
  "fst (call_adapter ydl url opts hk st0) = fst (run_hooks hk (events (ydl url opts)) st0)"
  by (simp add: call_adapter_def Let_def split: prod.split option.split)

lemma yd4_web_hook_not_terminal:
  "yd4_web_hook pf d = Inr acts \<Longrightarrow> list_all (\<lambda>m. \<not> terminal m) acts"
  by (auto simp: yd4_web_hook_def split: option.splits if_splits)

lemma Yd_web_hook_not_terminal:
  "Yd_web_hook pf d = Inr acts \<Longrightarrow> list_all (\<lambda>m. \<not> terminal m) acts"
  by (auto simp: Yd_web_hook_def split: option.splits if_splits)

lemma yd4_sent_not_terminal:
  "list_all (\<lambda>m. \<not> terminal m) (sent (yd4_download h ydl url fmt p (Some (yd4_web_hook pf))))"
proof (cases "makedirs h (yd4_output_path h p)")
  case (Some e)
  then show ?thesis by (simp add: yd4_download_def)
next
  case None
  let ?hk = "internal_hook (Some (yd4_web_hook pf))"
  let ?I = "\<lambda>s :: 'a ws_message hook_state. list_all (\<lambda>m. \<not> terminal m) (emitted s)"
  let ?o = "yd4_opts fmt (yd4_output_path h p)"
  have step: "?I s'" if "?I s" and "?hk d s = Inr s'" for d s s'
    using that yd4_web_hook_not_terminal [of pf d]
    by (auto simp: internal_hook_def Let_def split: option.splits sum.splits if_splits)
  have "?I (fst (run_hooks ?hk (events (ydl (PStr url) ?o)) \<lparr>downloaded_file = None, emitted = []\<rparr>))"
    by (rule run_hooks_invariant [where I = ?I]) (auto intro: step)
  then have "?I (fst (call_adapter ydl (PStr url) ?o ?hk \<lparr>downloaded_file = None, emitted = []\<rparr>))"
    by (simp only: fst_call_adapter)
  with None show ?thesis
    by (auto simp add: yd4_download_def Let_def split: prod.split)
qed

lemma Yd_sent_not_terminal:
  "list_all (\<lambda>m. \<not> terminal m) (sent (Yd_download dp ydl url fmt (Yd_web_hook pf)))"
proof -
  let ?hk = "Yd_hook_step (Yd_web_hook pf)"
  let ?I = "\<lambda>acts :: 'a ws_message list. list_all (\<lambda>m. \<not> terminal m) acts"
  have step: "?I s'" if "?I s" and "?hk d s = Inr s'" for d s s'
    using that Yd_web_hook_not_terminal [of pf d]
    by (auto simp: Yd_hook_step_def split: sum.splits)
  have "?I (fst (run_hooks ?hk (events (ydl url (Yd_opts fmt dp))) []))"
    by (rule run_hooks_invariant [where I = ?I]) (auto intro: step)
  then have "?I (fst (call_adapter ydl url (Yd_opts fmt dp) ?hk []))"
    by (simp only: fst_call_adapter)
  then show ?thesis
    by (auto simp add: Yd_download_def Let_def split: prod.split)
qed

lemma one_terminal_at_the_end:
  assumes "list_all (\<lambda>m. \<not> terminal m) ms" and "terminal t"
  shows "length (filter terminal (ms @ [t])) = 1 \<and> terminal (last (ms @ [t]))"
proof -
  from assms(1) have "filter terminal ms = []"
    by (simp add: list_all_iff filter_empty_conv)
  with assms(2) show ?thesis by simp
qed

lemma yd4_endpoint_one_terminal:
  "length (filter terminal (messages (yd4_websocket_endpoint h ydl pf data))) = 1
   \<and> terminal (last (messages (yd4_websocket_endpoint h ydl pf data)))"
proof (cases "yd4_ws_start h data")
  case (Reject m)
  then show ?thesis by (simp add: yd4_websocket_endpoint_def)
next
  case (Start url fmt dir)
  let ?j = "yd4_download h ydl url fmt dir (Some (yd4_web_hook pf))"
  let ?t = "if fst (result ?j) then WsDone (Some (snd (result ?j)))
            else WsError (snd (result ?j)) :: 'a ws_message"
  have m: "messages (yd4_websocket_endpoint h ydl pf data) = sent ?j @ [?t]"
    using Start by (simp add: yd4_websocket_endpoint_def yd4_ws_job_def Let_def)
  have n: "list_all (\<lambda>m. \<not> terminal m) (sent ?j)"
    by (rule yd4_sent_not_terminal)
  have t: "terminal ?t"
    by simp
  from n t have "length (filter terminal (sent ?j @ [?t])) = 1
      \<and> terminal (last (sent ?j @ [?t]))"
    by (rule one_terminal_at_the_end)
  then show ?thesis by (simp only: m)
qed

lemma Yd_endpoint_one_terminal:
  "length (filter terminal (messages (Yd_websocket_endpoint dp ydl pf data))) = 1
   \<and> terminal (last (messages (Yd_websocket_endpoint dp ydl pf data)))"
proof -
  have "length (filter terminal (sent (Yd_download dp ydl url fmt (Yd_web_hook pf)) @ [WsDone None])) = 1
      \<and> terminal (last (sent (Yd_download dp ydl url fmt (Yd_web_hook pf)) @ [WsDone None]))"
    for url fmt
    by (rule one_terminal_at_the_end) (simp_all add: Yd_sent_not_terminal)
  then show ?thesis
    by (simp add: Yd_websocket_endpoint_def Let_def split: ws_request.split sum.split)
qed

lemma yd4_done_carries_path:
  assumes "WsDone path \<in> set (messages (yd4_websocket_endpoint h ydl pf data))"
  shows "\<exists>url fmt dir final.
           yd4_ws_start h data = Start url fmt dir
         \<and> result (yd4_download h ydl url fmt dir (Some (yd4_web_hook pf))) = (True, final)
         \<and> path = Some final"
proof (cases "yd4_ws_start h data")
  case (Reject m)
  with assms show ?thesis by (simp add: yd4_websocket_endpoint_def)
next
  case (Start url fmt dir)
  let ?j = "yd4_download h ydl url fmt dir (Some (yd4_web_hook pf))"
  from yd4_sent_not_terminal [of h ydl url fmt dir pf]
  have "WsDone path \<notin> set (sent ?j)"
    by (auto simp: list_all_iff)
  with assms Start have "fst (result ?j) \<and> path = Some (snd (result ?j))"
    by (auto simp: yd4_websocket_endpoint_def yd4_ws_job_def Let_def split: if_splits)
  then have "result ?j = (True, snd (result ?j)) \<and> path = Some (snd (result ?j))"
    by (cases "result ?j") simp
  with Start show ?thesis by blast
qed

text \<open>
  C9, as stated, fails on the channel of \<^verbatim>\<open>Yd.py\<close>: its \<^verbatim>\<open>done\<close> message has no path.
\<close>

theorem Yd_done_has_no_path:
  "messages (Yd_websocket_endpoint ''/cwd/downloads'' (fixed_adapter title_run) digits_float
               video_request)
     = [WsProgress (FloatOf 10) ''Downloading...'', WsProgress (FloatOf 55) ''Downloading...'',
        WsLog ''Processing file...'', WsDone None]"
  by code_simp

text \<open>
  C9, amended. On both channels every request is answered by exactly one terminal
  message, \<^verbatim>\<open>done\<close> or \<^verbatim>\<open>error\<close>, and it is the last message. On the channel of
  \<^verbatim>\<open>yd4.py\<close> a \<^verbatim>\<open>done\<close> message carries the path that the engine returned with success.
\<close>

theorem channel_ends_with_one_terminal_message:
  "length (filter terminal (messages (yd4_websocket_endpoint h ydl pf data))) = 1
   \<and> terminal (last (messages (yd4_websocket_endpoint h ydl pf data)))
   \<and> length (filter terminal (messages (Yd_websocket_endpoint dp ydl pf data))) = 1
   \<and> terminal (last (messages (Yd_websocket_endpoint dp ydl pf data)))
   \<and> (\<forall>path. WsDone path \<in> set (messages (yd4_websocket_endpoint h ydl pf data)) \<longrightarrow>
        (\<exists>url fmt dir final.
            yd4_ws_start h data = Start url fmt dir
          \<and> result (yd4_download h ydl url fmt dir (Some (yd4_web_hook pf))) = (True, final)
          \<and> path = Some final))"
  using yd4_endpoint_one_terminal [of h ydl pf data] Yd_endpoint_one_terminal [of dp ydl pf data]
    yd4_done_carries_path [of _ h ydl pf data]
  by blast

theorem channel_ends_with_one_terminal_message_witness:
  "messages (yd4_websocket_endpoint mp4_disk (fixed_adapter title_run) digits_float video_request)
     = [WsProgress (FloatOf 10) ''Downloading...'', WsProgress (FloatOf 55) ''Downloading...'',
        WsProgress (IntLit 100) ''Processing...'', WsDone (Some ''/d/Title.mp4'')]
   \<and> yd4_ws_start mp4_disk video_request
       = Start ''https://example/video123'' (PStr ''video'') ''/home/u/ytd''
   \<and> length (filter terminal (messages (yd4_websocket_endpoint mp4_disk
        (fixed_adapter title_run) digits_float video_request))) = 1
   \<and> (\<exists>url fmt dir final.
          yd4_ws_start mp4_disk video_request = Start url fmt dir
        \<and> result (yd4_download mp4_disk (fixed_adapter title_run) url fmt dir
                    (Some (yd4_web_hook digits_float))) = (True, final)
        \<and> Some ''/d/Title.mp4'' = Some final)"
proof -
  have a: "messages (yd4_websocket_endpoint mp4_disk (fixed_adapter title_run) digits_float
                       video_request)
     = [WsProgress (FloatOf 10) ''Downloading...'', WsProgress (FloatOf 55) ''Downloading...'',
        WsProgress (IntLit 100) ''Processing...'', WsDone (Some ''/d/Title.mp4'')]"
    by code_simp
  have b: "yd4_ws_start mp4_disk video_request
       = Start ''https://example/video123'' (PStr ''video'') ''/home/u/ytd''"
    by code_simp
  have c: "WsDone (Some ''/d/Title.mp4'')
       \<in> set (messages (yd4_websocket_endpoint mp4_disk (fixed_adapter title_run) digits_float
                 video_request))"
    by (simp only: a) simp
  note w = channel_ends_with_one_terminal_message [where h = mp4_disk
      and ydl = "fixed_adapter title_run" and pf = digits_float and data = video_request
      and dp = "''/cwd/downloads''"]
  from w have d: "length (filter terminal (messages (yd4_websocket_endpoint mp4_disk
        (fixed_adapter title_run) digits_float video_request))) = 1"
    by (elim conjE)
  from w c have e: "\<exists>url fmt dir final.
          yd4_ws_start mp4_disk video_request = Start url fmt dir
        \<and> result (yd4_download mp4_disk (fixed_adapter title_run) url fmt dir
                    (Some (yd4_web_hook digits_float))) = (True, final)
        \<and> Some ''/d/Title.mp4'' = Some final"
    by blast
  from a b d e show ?thesis by (simp only: simp_thms)
qed


end
